theory Spec2Isabelle
  imports Main "HOL-Library.Word"
begin

unbundle bit_operations_syntax

section \<open>Geometry: resize edges and cursor shapes\<close>

text \<open>
  Source: \<^verbatim>\<open>src/core/contexts/qtwindowcontext.cpp\<close>. The constant
  \<^verbatim>\<open>kDefaultResizeBorderThickness\<close> is a \<^verbatim>\<open>quint8\<close> that is promoted to
  \<^verbatim>\<open>int\<close> in every comparison, so it is an \<open>int\<close> here. Coordinates and sizes are
  C++ \<^verbatim>\<open>int\<close>; the only arithmetic on them is \<^verbatim>\<open>w - 8\<close>, which cannot
  overflow for a width or height that is not negative, so they are modelled as
  unbounded \<open>int\<close>.
\<close>

definition kDefaultResizeBorderThickness :: int where
  "kDefaultResizeBorderThickness = 8"

text \<open>The values of \<^verbatim>\<open>Qt::CursorShape\<close> that the code returns.\<close>

datatype CursorShape =
  ArrowCursor | SizeVerCursor | SizeHorCursor | SizeBDiagCursor | SizeFDiagCursor

text \<open>
  \<^verbatim>\<open>Qt::Edges\<close> is \<^verbatim>\<open>QFlags<Qt::Edge>\<close>, a bit set over four one-bit flags:
  a set of edges. \<^verbatim>\<open>edges |= Qt::LeftEdge\<close> is \<open>insert LeftEdge edges\<close> and
  \<^verbatim>\<open>Qt::Edges()\<close> is \<open>{}\<close>.
\<close>

datatype Edge = TopEdge | LeftEdge | RightEdge | BottomEdge

text \<open>\<^verbatim>\<open>QWindow::Visibility\<close>.\<close>

datatype Visibility = Hidden | AutomaticVisibility | Windowed | Minimized | Maximized | FullScreen

datatype QPoint = QPoint (px: int) (py: int)

text \<open>What the two geometry functions read of a \<^verbatim>\<open>QWindow\<close>.\<close>

record QWindow =
  visibility :: Visibility
  width :: int
  height :: int

text \<open>
  \<^verbatim>\<open>calculateCursorShape\<close> (the branch that is not macOS). The window is a
  pointer that may be null: \<open>None\<close>. \<^verbatim>\<open>Q_ASSERT(window)\<close> is compiled out of a
  release build, where the null test that follows it decides.
\<close>

definition calculateCursorShape :: "QWindow option \<Rightarrow> QPoint \<Rightarrow> CursorShape" where
  "calculateCursorShape window pos =
     (case window of
        None \<Rightarrow> ArrowCursor
      | Some win \<Rightarrow>
          if visibility win \<noteq> Windowed then ArrowCursor
          else
            let x = px pos; y = py pos; w = width win; h = height win in
            if (x < kDefaultResizeBorderThickness \<and> y < kDefaultResizeBorderThickness) \<or>
               (x \<ge> w - kDefaultResizeBorderThickness \<and> y \<ge> h - kDefaultResizeBorderThickness)
            then SizeFDiagCursor
            else if (x \<ge> w - kDefaultResizeBorderThickness \<and> y < kDefaultResizeBorderThickness) \<or>
                    (x < kDefaultResizeBorderThickness \<and> y \<ge> h - kDefaultResizeBorderThickness)
            then SizeBDiagCursor
            else if x < kDefaultResizeBorderThickness \<or> x \<ge> w - kDefaultResizeBorderThickness
            then SizeHorCursor
            else if y < kDefaultResizeBorderThickness \<or> y \<ge> h - kDefaultResizeBorderThickness
            then SizeVerCursor
            else ArrowCursor)"

text \<open>\<^verbatim>\<open>calculateWindowEdges\<close>: four independent tests, each adding one edge.\<close>

definition calculateWindowEdges :: "QWindow option \<Rightarrow> QPoint \<Rightarrow> Edge set" where
  "calculateWindowEdges window pos =
     (case window of
        None \<Rightarrow> {}
      | Some win \<Rightarrow>
          if visibility win \<noteq> Windowed then {}
          else
            let x = px pos; y = py pos;
                e1 = (if x < kDefaultResizeBorderThickness then {LeftEdge} else {});
                e2 = (if x \<ge> width win - kDefaultResizeBorderThickness
                      then insert RightEdge e1 else e1);
                e3 = (if y < kDefaultResizeBorderThickness then insert TopEdge e2 else e2);
                e4 = (if y \<ge> height win - kDefaultResizeBorderThickness
                      then insert BottomEdge e3 else e3)
            in e4)"

text \<open>
  The four bands of the specification, "within the border thickness of" an edge,
  for a pointer position and a window size.
\<close>

definition nearLeft :: "QWindow \<Rightarrow> QPoint \<Rightarrow> bool" where
  "nearLeft win pos \<longleftrightarrow> px pos < kDefaultResizeBorderThickness"

definition nearRight :: "QWindow \<Rightarrow> QPoint \<Rightarrow> bool" where
  "nearRight win pos \<longleftrightarrow> px pos \<ge> width win - kDefaultResizeBorderThickness"

definition nearTop :: "QWindow \<Rightarrow> QPoint \<Rightarrow> bool" where
  "nearTop win pos \<longleftrightarrow> py pos < kDefaultResizeBorderThickness"

definition nearBottom :: "QWindow \<Rightarrow> QPoint \<Rightarrow> bool" where
  "nearBottom win pos \<longleftrightarrow> py pos \<ge> height win - kDefaultResizeBorderThickness"

section \<open>The interaction state machine\<close>

text \<open>
  \<^verbatim>\<open>QtWindowEventFilter::WindowStatus\<close> and the two members that
  \<^verbatim>\<open>sharedEventFilter\<close> mutates. The constructor starts with
  \<^verbatim>\<open>m_cursorShapeChanged(false), m_windowStatus(Idle)\<close>.
\<close>

datatype WindowStatus = Idle | WaitingRelease | PreparingMove | Moving | Resizing

record FilterState =
  m_cursorShapeChanged :: bool
  m_windowStatus :: WindowStatus

definition QtWindowEventFilter :: FilterState where
  "QtWindowEventFilter = \<lparr>m_cursorShapeChanged = False, m_windowStatus = Idle\<rparr>"

text \<open>
  \<^verbatim>\<open>QEvent::Type\<close>: the four mouse types have the consecutive values 2 to 5, so the
  range test \<^verbatim>\<open>type < MouseButtonPress || type > MouseMove\<close> rejects exactly the
  event types that are none of the four, here \<open>OtherEvent\<close>.
\<close>

datatype EventType =
  MouseButtonPress | MouseButtonRelease | MouseButtonDblClick | MouseMove | OtherEvent

datatype MouseButton = NoButton | LeftButton | RightButton | MiddleButton | OtherButton

record QMouseEvent =
  etype :: EventType
  button :: MouseButton
  scenePos :: QPoint
  globalPos :: QPoint

text \<open>
  \<^verbatim>\<open>Qt::WindowFlags\<close> and \<^verbatim>\<open>Qt::WindowStates\<close> are \<^verbatim>\<open>QFlags\<close> as well: sets of
  one-bit flags. \<^verbatim>\<open>s & ~Qt::WindowMaximized\<close> is \<open>s - {WindowMaximized}\<close>,
  \<^verbatim>\<open>s | Qt::WindowMaximized\<close> is \<open>insert WindowMaximized s\<close>, and a test
  \<^verbatim>\<open>s & flag\<close> is membership.
\<close>

datatype WindowFlag =
  FramelessWindowHint | WindowMinimizeButtonHint | WindowMaximizeButtonHint
  | WindowCloseButtonHint | WindowSystemMenuHint

datatype WindowState = WindowMinimized | WindowMaximized | WindowFullScreen | WindowActive

text \<open>
  What the filter and the native hook read through \<^verbatim>\<open>m_context\<close> and the delegate:
  \<^verbatim>\<open>isHostSizeFixed()\<close>, \<^verbatim>\<open>window()\<close>, the application's hit test
  \<^verbatim>\<open>isInTitleBarDraggableArea\<close>, and the delegate's \<^verbatim>\<open>getWindowFlags(host)\<close>
  and \<^verbatim>\<open>getWindowState(host)\<close>.
\<close>

record WindowContext =
  isHostSizeFixed :: bool
  window :: "QWindow option"
  isInTitleBarDraggableArea :: "QPoint \<Rightarrow> bool"
  getWindowFlags :: "WindowFlag set"
  getWindowState :: "WindowState set"

text \<open>
  The calls the filter makes on its collaborators, in order: the free functions
  \<^verbatim>\<open>startSystemResize(window, edges)\<close> and \<^verbatim>\<open>startSystemMove(window)\<close>,
  \<^verbatim>\<open>m_context->showSystemMenu(globalPos)\<close>, and the delegate's
  \<^verbatim>\<open>restoreCursorShape\<close>, \<^verbatim>\<open>setCursorShape\<close> and \<^verbatim>\<open>setWindowState\<close>.
\<close>

datatype Call =
  StartSystemResize "Edge set"
  | StartSystemMove
  | ShowSystemMenu QPoint
  | RestoreCursorShape
  | SetCursorShape CursorShape
  | SetWindowState "WindowState set"

text \<open>
  One run of \<^verbatim>\<open>sharedEventFilter\<close>: the value it returns (\<open>True\<close>: the event is
  swallowed), whether it called \<^verbatim>\<open>event->accept()\<close>, the calls it made, and the
  members afterwards.
\<close>

record FilterResult =
  filtered :: bool
  accepted :: bool
  calls :: "Call list"
  after :: FilterState

definition result :: "bool \<Rightarrow> bool \<Rightarrow> Call list \<Rightarrow> FilterState \<Rightarrow> FilterResult" where
  "result f a cs st = \<lparr>filtered = f, accepted = a, calls = cs, after = st\<rparr>"

definition setStatus :: "WindowStatus \<Rightarrow> FilterState \<Rightarrow> FilterState" where
  "setStatus s st = st\<lparr>m_windowStatus := s\<rparr>"

text \<open>\<^verbatim>\<open>case QEvent::MouseButtonPress\<close>.\<close>

definition onMouseButtonPress :: "WindowContext \<Rightarrow> FilterState \<Rightarrow> QMouseEvent \<Rightarrow> FilterResult" where
  "onMouseButtonPress ctx st me =
     (let fixedSize = isHostSizeFixed ctx;
          inTitleBar = isInTitleBarDraggableArea ctx (scenePos me)
      in case button me of
           LeftButton \<Rightarrow>
             if \<not> fixedSize \<and> calculateWindowEdges (window ctx) (scenePos me) \<noteq> {}
             then result True True
                    [StartSystemResize (calculateWindowEdges (window ctx) (scenePos me))]
                    (setStatus Resizing st)
             else if inTitleBar
             then result True True [] (setStatus PreparingMove st)
             else result False False [] (setStatus WaitingRelease st)
         | RightButton \<Rightarrow>
             result False False
               (if inTitleBar then [ShowSystemMenu (globalPos me)] else [])
               (setStatus WaitingRelease st)
         | _ \<Rightarrow> result False False [] (setStatus WaitingRelease st))"

text \<open>\<^verbatim>\<open>case QEvent::MouseButtonRelease\<close>.\<close>

definition onMouseButtonRelease :: "WindowContext \<Rightarrow> FilterState \<Rightarrow> QMouseEvent \<Rightarrow> FilterResult" where
  "onMouseButtonRelease ctx st me =
     (let inTitleBar = isInTitleBarDraggableArea ctx (scenePos me)
      in case m_windowStatus st of
           PreparingMove \<Rightarrow> result True True [] (setStatus Idle st)
         | Moving \<Rightarrow> result True True [] (setStatus Idle st)
         | Resizing \<Rightarrow> result True True [] (setStatus Idle st)
         | WaitingRelease \<Rightarrow> result False False [] (setStatus Idle st)
         | Idle \<Rightarrow> if inTitleBar then result True True [] st else result False False [] st)"

text \<open>\<^verbatim>\<open>case QEvent::MouseMove\<close>. In \<open>Moving\<close> the code returns without accepting.\<close>

definition onMouseMove :: "WindowContext \<Rightarrow> FilterState \<Rightarrow> QMouseEvent \<Rightarrow> FilterResult" where
  "onMouseMove ctx st me =
     (case m_windowStatus st of
        Moving \<Rightarrow> result True False [] st
      | PreparingMove \<Rightarrow> result True True [StartSystemMove] (setStatus Moving st)
      | Idle \<Rightarrow>
          if \<not> isHostSizeFixed ctx then
            let shape = calculateCursorShape (window ctx) (scenePos me) in
            if shape = ArrowCursor then
              if m_cursorShapeChanged st
              then result False False [RestoreCursorShape] (st\<lparr>m_cursorShapeChanged := False\<rparr>)
              else result False False [] st
            else result False False [SetCursorShape shape] (st\<lparr>m_cursorShapeChanged := True\<rparr>)
          else result False False [] st
      | _ \<Rightarrow> result False False [] st)"

text \<open>\<^verbatim>\<open>case QEvent::MouseButtonDblClick\<close>.\<close>

definition onMouseButtonDblClick :: "WindowContext \<Rightarrow> FilterState \<Rightarrow> QMouseEvent \<Rightarrow> FilterResult" where
  "onMouseButtonDblClick ctx st me =
     (let fixedSize = isHostSizeFixed ctx;
          inTitleBar = isInTitleBarDraggableArea ctx (scenePos me)
      in if button me = LeftButton \<and> inTitleBar \<and> \<not> fixedSize then
           let windowFlags = getWindowFlags ctx; windowState = getWindowState ctx in
           if WindowMaximizeButtonHint \<in> windowFlags \<and> WindowFullScreen \<notin> windowState then
             result True True
               [SetWindowState (if WindowMaximized \<in> windowState
                                then windowState - {WindowMaximized}
                                else insert WindowMaximized windowState)]
               st
           else result False False [] st
         else result False False [] st)"

text \<open>\<^verbatim>\<open>QtWindowEventFilter::sharedEventFilter\<close>.\<close>

definition sharedEventFilter :: "WindowContext \<Rightarrow> FilterState \<Rightarrow> QMouseEvent \<Rightarrow> FilterResult" where
  "sharedEventFilter ctx st event =
     (case etype event of
        OtherEvent \<Rightarrow> result False False [] st
      | MouseButtonPress \<Rightarrow> onMouseButtonPress ctx st event
      | MouseButtonRelease \<Rightarrow> onMouseButtonRelease ctx st event
      | MouseMove \<Rightarrow> onMouseMove ctx st event
      | MouseButtonDblClick \<Rightarrow> onMouseButtonDblClick ctx st event)"

text \<open>The filter on a sequence of events, each run starting where the last one ended.\<close>

fun filterEvents :: "WindowContext \<Rightarrow> FilterState \<Rightarrow> QMouseEvent list \<Rightarrow> FilterResult list" where
  "filterEvents ctx st [] = []"
| "filterEvents ctx st (e # es) =
     (let r = sharedEventFilter ctx st e in r # filterEvents ctx (after r) es)"

text \<open>How often a sequence of runs called \<^verbatim>\<open>startSystemMove\<close>.\<close>

definition startSystemMoveCount :: "FilterResult list \<Rightarrow> nat" where
  "startSystemMoveCount rs = length (filter (\<lambda>c. c = StartSystemMove) (concat (map calls rs)))"

section \<open>The native system menu and the hook table (Windows)\<close>

text \<open>
  Win32 types: \<^verbatim>\<open>UINT\<close> is 32 bits, \<^verbatim>\<open>WPARAM\<close>, \<^verbatim>\<open>LPARAM\<close>, \<^verbatim>\<open>LONG_PTR\<close>
  and \<^verbatim>\<open>LRESULT\<close> are pointer-sized (64 bits), \<^verbatim>\<open>SHORT\<close> is 16 bits. A window
  handle is an opaque identity. \<^verbatim>\<open>POINT\<close> is a pair of coordinates like
  \<^verbatim>\<open>QPoint\<close>, and \<^verbatim>\<open>point2qpoint\<close> copies the two fields.
\<close>

type_synonym UINT = "32 word"
type_synonym WPARAM = "64 word"
type_synonym LPARAM = "64 word"
type_synonym LRESULT = "64 word"
type_synonym HWND = nat
type_synonym POINT = QPoint

text \<open>The constants of the Windows headers that the code names.\<close>

definition UINT_MAX :: UINT where "UINT_MAX = 0xFFFFFFFF"
definition SC_SIZE :: UINT where "SC_SIZE = 0xF000"
definition SC_MOVE :: UINT where "SC_MOVE = 0xF010"
definition SC_MINIMIZE :: UINT where "SC_MINIMIZE = 0xF020"
definition SC_MAXIMIZE :: UINT where "SC_MAXIMIZE = 0xF030"
definition SC_CLOSE :: UINT where "SC_CLOSE = 0xF060"
definition SC_RESTORE :: UINT where "SC_RESTORE = 0xF120"
definition SC_KEYMENU :: WPARAM where "SC_KEYMENU = 0xF100"
definition WM_KEYDOWN :: UINT where "WM_KEYDOWN = 0x0100"
definition WM_SYSKEYDOWN :: UINT where "WM_SYSKEYDOWN = 0x0104"
definition WM_SYSCOMMAND :: UINT where "WM_SYSCOMMAND = 0x0112"
definition WM_RBUTTONUP :: UINT where "WM_RBUTTONUP = 0x0205"
definition WM_NCRBUTTONUP :: UINT where "WM_NCRBUTTONUP = 0x00A5"
definition HTCAPTION :: WPARAM where "HTCAPTION = 2"
definition VK_MENU :: "64 word" where "VK_MENU = 0x12"
definition VK_SPACE :: "64 word" where "VK_SPACE = 0x20"
definition WS_MAXIMIZEBOX :: "64 word" where "WS_MAXIMIZEBOX = 0x00010000"
definition WS_MINIMIZEBOX :: "64 word" where "WS_MINIMIZEBOX = 0x00020000"

text \<open>
  \<^verbatim>\<open>GET_X_LPARAM\<close> and \<^verbatim>\<open>GET_Y_LPARAM\<close>: the low and the high 16-bit word of the
  low 32 bits, each read as a signed \<^verbatim>\<open>short\<close>.
\<close>

definition GET_X_LPARAM :: "LPARAM \<Rightarrow> int" where
  "GET_X_LPARAM lp = sint (ucast lp :: 16 word)"

definition GET_Y_LPARAM :: "LPARAM \<Rightarrow> int" where
  "GET_Y_LPARAM lp = sint (ucast (drop_bit 16 lp) :: 16 word)"

text \<open>
  The system menu of a window, as far as the code configures it: per command
  identifier whether the item is enabled (\<^verbatim>\<open>MFS_ENABLED\<close>, \<open>True\<close>, or
  \<^verbatim>\<open>MFS_DISABLED\<close>) and whether it is highlighted (\<^verbatim>\<open>MFS_HILITE\<close>, \<open>True\<close>, or
  \<^verbatim>\<open>MFS_UNHILITE\<close>), and the default item.
\<close>

record HMENU =
  itemEnabled :: "UINT \<Rightarrow> bool"
  itemHilited :: "UINT \<Rightarrow> bool"
  defaultItem :: UINT

definition EnableMenuItem :: "HMENU \<Rightarrow> UINT \<Rightarrow> bool \<Rightarrow> HMENU" where
  "EnableMenuItem hMenu item en = hMenu\<lparr>itemEnabled := (itemEnabled hMenu)(item := en)\<rparr>"

definition HiliteMenuItem :: "HMENU \<Rightarrow> UINT \<Rightarrow> bool \<Rightarrow> HMENU" where
  "HiliteMenuItem hMenu item hi = hMenu\<lparr>itemHilited := (itemHilited hMenu)(item := hi)\<rparr>"

definition SetMenuDefaultItem :: "HMENU \<Rightarrow> UINT \<Rightarrow> HMENU" where
  "SetMenuDefaultItem hMenu item = hMenu\<lparr>defaultItem := item\<rparr>"

text \<open>
  A window procedure: the replacement handler of this file, or a handler that
  belongs to somebody else. A null \<^verbatim>\<open>WNDPROC\<close> is \<open>None\<close>.
\<close>

datatype WNDPROC = SystemMenuHookWindowProc | ForeignWindowProc nat

text \<open>\<^verbatim>\<open>struct Win32QtContextData\<close>; the member \<^verbatim>\<open>context\<close> is \<open>contextPtr\<close>.\<close>

record Win32QtContextData =
  originalWindowProc :: "WNDPROC option"
  contextPtr :: WindowContext

text \<open>One \<^verbatim>\<open>TrackPopupMenu\<close> call: the menu as it is shown, its alignment and place.\<close>

record Popup =
  popupMenu :: HMENU
  rightAligned :: bool
  popupPos :: POINT
  popupOwner :: HWND

text \<open>
  The mutable state: the window procedure of each window (\<^verbatim>\<open>GWLP_WNDPROC\<close>), the
  process-wide \<^verbatim>\<open>g_qtContextHash\<close>, the system menu of each window (\<open>None\<close>:
  \<^verbatim>\<open>GetSystemMenu\<close> returns null), the popups shown and the messages posted with
  \<^verbatim>\<open>PostMessageW\<close>, oldest first.
\<close>

record World =
  wndProc :: "HWND \<Rightarrow> WNDPROC option"
  g_qtContextHash :: "HWND \<rightharpoonup> Win32QtContextData"
  systemMenu :: "HWND \<Rightarrow> HMENU option"
  popups :: "Popup list"
  posted :: "(HWND \<times> UINT \<times> WPARAM \<times> LPARAM) list"

text \<open>
  What the operating system and the toolkit answer when asked: the window style
  (\<^verbatim>\<open>GetWindowLongPtrW(hWnd, GWL_STYLE)\<close>), \<^verbatim>\<open>IsZoomed\<close>, the top-left corner that
  \<^verbatim>\<open>GetWindowRect\<close> reports, \<^verbatim>\<open>ClientToScreen\<close>, \<^verbatim>\<open>GetKeyState\<close>,
  \<^verbatim>\<open>QGuiApplication::isRightToLeft()\<close>, \<^verbatim>\<open>QHighDpi::fromNativeLocalPosition\<close>, and
  the command the user picks in the popup (what \<^verbatim>\<open>TrackPopupMenu\<close> returns under
  \<^verbatim>\<open>TPM_RETURNCMD\<close>; 0 when the menu is dismissed).
\<close>

record Env =
  windowStyles :: "HWND \<Rightarrow> 64 word"
  IsZoomed :: "HWND \<Rightarrow> bool"
  windowRectLeft :: "HWND \<Rightarrow> int"
  windowRectTop :: "HWND \<Rightarrow> int"
  ClientToScreen :: "HWND \<Rightarrow> POINT \<Rightarrow> POINT"
  GetKeyState :: "64 word \<Rightarrow> 16 word"
  isRightToLeft :: bool
  fromNativeLocalPosition :: "QPoint \<Rightarrow> QWindow option \<Rightarrow> QPoint"
  TrackPopupMenu :: "HWND \<Rightarrow> HMENU \<Rightarrow> UINT"

text \<open>
  The default item of \<^verbatim>\<open>showSystemMenu_sys\<close>, with the test against
  \<^verbatim>\<open>UINT_MAX\<close> that follows the assignment. The local \<^verbatim>\<open>max\<close> of the source
  is \<open>max'\<close> here.
\<close>

definition defaultItemId :: "bool \<Rightarrow> UINT" where
  "defaultItemId max' =
     (let d = (if max' then SC_RESTORE else SC_MAXIMIZE)
      in if d = UINT_MAX then SC_CLOSE else d)"

text \<open>The menu after the calls that come before \<^verbatim>\<open>TrackPopupMenu\<close>, in their order.\<close>

definition configureMenu :: "HMENU \<Rightarrow> bool \<Rightarrow> bool \<Rightarrow> bool \<Rightarrow> bool \<Rightarrow> bool \<Rightarrow> HMENU" where
  "configureMenu hMenu allowMaximize allowMinimize max' selectFirstEntry fixedSize =
     (let m1 = EnableMenuItem hMenu SC_CLOSE True;
          m2 = EnableMenuItem m1 SC_MAXIMIZE (\<not> (max' \<or> fixedSize \<or> \<not> allowMaximize));
          m3 = EnableMenuItem m2 SC_RESTORE (max' \<and> \<not> fixedSize \<and> allowMaximize);
          m4 = HiliteMenuItem m3 SC_RESTORE selectFirstEntry;
          m5 = EnableMenuItem m4 SC_MINIMIZE allowMinimize;
          m6 = EnableMenuItem m5 SC_SIZE (\<not> (max' \<or> fixedSize));
          m7 = EnableMenuItem m6 SC_MOVE (\<not> max')
      in SetMenuDefaultItem m7 (defaultItemId max'))"

text \<open>
  \<^verbatim>\<open>showSystemMenu_sys\<close>: the value returned and the state afterwards.
  \<^verbatim>\<open>const bool allowMaximize = windowStyles & WS_MAXIMIZEBOX\<close> is true when the
  conjunction is not zero.
\<close>

definition showSystemMenu_sys :: "Env \<Rightarrow> World \<Rightarrow> HWND \<Rightarrow> POINT \<Rightarrow> bool \<Rightarrow> bool \<Rightarrow> bool \<times> World" where
  "showSystemMenu_sys env w hWnd pos selectFirstEntry fixedSize =
     (case systemMenu w hWnd of
        None \<Rightarrow> (True, w)
      | Some hMenu \<Rightarrow>
          let allowMaximize = (windowStyles env hWnd AND WS_MAXIMIZEBOX \<noteq> 0);
              allowMinimize = (windowStyles env hWnd AND WS_MINIMIZEBOX \<noteq> 0);
              max' = IsZoomed env hWnd;
              shown = configureMenu hMenu allowMaximize allowMinimize max' selectFirstEntry fixedSize;
              res = TrackPopupMenu env hWnd shown;
              final = HiliteMenuItem shown SC_RESTORE False;
              w1 = w\<lparr>systemMenu := (systemMenu w)(hWnd := Some final),
                     popups := popups w @
                       [\<lparr>popupMenu = shown, rightAligned = isRightToLeft env,
                         popupPos = pos, popupOwner = hWnd\<rparr>]\<rparr>
          in if res = 0 then (False, w1)
             else (True, w1\<lparr>posted := posted w1 @ [(hWnd, WM_SYSCOMMAND, ucast res, 0)]\<rparr>))"

text \<open>
  The \<^verbatim>\<open>switch (uMsg)\<close> of \<^verbatim>\<open>SystemMenuHookWindowProc\<close>: \<open>None\<close> when
  \<^verbatim>\<open>shouldShowSystemMenu\<close> stays false, else \<^verbatim>\<open>nativeGlobalPos\<close> and
  \<^verbatim>\<open>broughtByKeyboard\<close>.
\<close>

definition systemMenuRequest ::
  "Env \<Rightarrow> Win32QtContextData \<Rightarrow> HWND \<Rightarrow> UINT \<Rightarrow> WPARAM \<Rightarrow> LPARAM \<Rightarrow> (POINT \<times> bool) option" where
  "systemMenuRequest env data hWnd uMsg wParam lParam =
     (if uMsg = WM_RBUTTONUP then
        let nativeLocalPos = QPoint (GET_X_LPARAM lParam) (GET_Y_LPARAM lParam);
            qtScenePos = fromNativeLocalPosition env nativeLocalPos (window (contextPtr data))
        in if isInTitleBarDraggableArea (contextPtr data) qtScenePos
           then Some (ClientToScreen env hWnd nativeLocalPos, False)
           else None
      else if uMsg = WM_NCRBUTTONUP then
        if wParam = HTCAPTION
        then Some (QPoint (GET_X_LPARAM lParam) (GET_Y_LPARAM lParam), False)
        else None
      else if uMsg = WM_SYSCOMMAND then
        let filteredWParam = wParam AND 0xFFF0 in
        if filteredWParam = SC_KEYMENU \<and> lParam = VK_SPACE
        then Some (QPoint (windowRectLeft env hWnd) (windowRectTop env hWnd + 30), True)
        else None
      else if uMsg = WM_KEYDOWN \<or> uMsg = WM_SYSKEYDOWN then
        let altPressed = (wParam = VK_MENU \<or> sint (GetKeyState env VK_MENU) < 0);
            spacePressed = (wParam = VK_SPACE \<or> sint (GetKeyState env VK_SPACE) < 0)
        in if altPressed \<and> spacePressed
           then Some (QPoint (windowRectLeft env hWnd) (windowRectTop env hWnd + 30), True)
           else None
      else None)"

text \<open>
  How a run of the replacement handler ends: it returns a value itself, or it
  returns whatever \<^verbatim>\<open>DefWindowProcW\<close> or, through \<^verbatim>\<open>CallWindowProcW\<close>, another
  window procedure returns for the same message.
\<close>

datatype Dispatch =
  Returned LRESULT
  | DefWindowProcW HWND UINT WPARAM LPARAM
  | CallWindowProcW WNDPROC HWND UINT WPARAM LPARAM

text \<open>\<^verbatim>\<open>SystemMenuHookWindowProc\<close>.\<close>

definition dispatch :: "Env \<Rightarrow> World \<Rightarrow> HWND \<Rightarrow> UINT \<Rightarrow> WPARAM \<Rightarrow> LPARAM \<Rightarrow> Dispatch \<times> World" where
  "dispatch env w hWnd uMsg wParam lParam =
     (case g_qtContextHash w hWnd of
        None \<Rightarrow> (DefWindowProcW hWnd uMsg wParam lParam, w)
      | Some data \<Rightarrow>
          (case systemMenuRequest env data hWnd uMsg wParam lParam of
             Some (nativeGlobalPos, broughtByKeyboard) \<Rightarrow>
               (Returned 0,
                snd (showSystemMenu_sys env w hWnd nativeGlobalPos broughtByKeyboard
                       (isHostSizeFixed (contextPtr data))))
           | None \<Rightarrow>
               (case originalWindowProc data of
                  Some p \<Rightarrow> (CallWindowProcW p hWnd uMsg wParam lParam, w)
                | None \<Rightarrow> (DefWindowProcW hWnd uMsg wParam lParam, w))))"

text \<open>
  \<^verbatim>\<open>installSystemMenuHook\<close>. \<^verbatim>\<open>GetWindowLongPtrW(hwnd, GWLP_WNDPROC)\<close> reads
  \<open>wndProc\<close>, \<^verbatim>\<open>SetWindowLongPtrW\<close> writes it.
\<close>

definition installSystemMenuHook :: "World \<Rightarrow> HWND \<Rightarrow> WindowContext \<Rightarrow> World" where
  "installSystemMenuHook w hwnd ctx =
     (if hwnd \<in> dom (g_qtContextHash w) then w
      else
        let data = \<lparr>originalWindowProc = wndProc w hwnd, contextPtr = ctx\<rparr> in
        case originalWindowProc data of
          None \<Rightarrow> w
        | Some p \<Rightarrow>
            w\<lparr>wndProc := (wndProc w)(hwnd := Some SystemMenuHookWindowProc),
              g_qtContextHash := (g_qtContextHash w)(hwnd \<mapsto> data)\<rparr>)"

text \<open>\<^verbatim>\<open>uninstallSystemMenuHook\<close>.\<close>

definition uninstallSystemMenuHook :: "World \<Rightarrow> HWND \<Rightarrow> World" where
  "uninstallSystemMenuHook w hwnd =
     (case g_qtContextHash w hwnd of
        None \<Rightarrow> w
      | Some data \<Rightarrow>
          let w1 = (case originalWindowProc data of
                      Some p \<Rightarrow> w\<lparr>wndProc := (wndProc w)(hwnd := Some p)\<rparr>
                    | None \<Rightarrow> w)
          in w1\<lparr>g_qtContextHash := (g_qtContextHash w1)(hwnd := None)\<rparr>)"

text \<open>
  The procedure that the operating system runs for a message sent to a window:
  the one registered for the window at that moment.
\<close>

definition messageHandler :: "World \<Rightarrow> HWND \<Rightarrow> WNDPROC option" where
  "messageHandler w hwnd = wndProc w hwnd"

text \<open>
  The states the two operations keep the program in: every record of the table
  holds an original handler, which is not the replacement handler, and a window
  without a record does not run the replacement handler.
\<close>

definition hookTableConsistent :: "World \<Rightarrow> bool" where
  "hookTableConsistent w \<longleftrightarrow>
     (\<forall>h data. g_qtContextHash w h = Some data \<longrightarrow>
        (\<exists>p. originalWindowProc data = Some p \<and> p \<noteq> SystemMenuHookWindowProc)) \<and>
     (\<forall>h. g_qtContextHash w h = None \<longrightarrow> wndProc w h \<noteq> Some SystemMenuHookWindowProc)"

section \<open>The designated system-menu messages\<close>

text \<open>
  The four kinds of message that the specification designates as requests for
  the system menu, each stated on the message alone: a right-button-up in the
  client area at a position inside the draggable title area, a non-client
  right-button-up whose hit-test code is the caption, the system command of the
  keyboard menu gesture, and a key-down with Alt and Space held.
\<close>

definition captionRightButtonUp :: "Env \<Rightarrow> Win32QtContextData \<Rightarrow> UINT \<Rightarrow> LPARAM \<Rightarrow> bool" where
  "captionRightButtonUp env data uMsg lParam \<longleftrightarrow>
     uMsg = WM_RBUTTONUP \<and>
     isInTitleBarDraggableArea (contextPtr data)
       (fromNativeLocalPosition env (QPoint (GET_X_LPARAM lParam) (GET_Y_LPARAM lParam))
          (window (contextPtr data)))"

definition nonClientCaptionRightButtonUp :: "UINT \<Rightarrow> WPARAM \<Rightarrow> bool" where
  "nonClientCaptionRightButtonUp uMsg wParam \<longleftrightarrow> uMsg = WM_NCRBUTTONUP \<and> wParam = HTCAPTION"

definition keyboardSystemMenuCommand :: "UINT \<Rightarrow> WPARAM \<Rightarrow> LPARAM \<Rightarrow> bool" where
  "keyboardSystemMenuCommand uMsg wParam lParam \<longleftrightarrow>
     uMsg = WM_SYSCOMMAND \<and> wParam AND 0xFFF0 = SC_KEYMENU \<and> lParam = VK_SPACE"

definition altSpaceKeyDown :: "Env \<Rightarrow> UINT \<Rightarrow> WPARAM \<Rightarrow> bool" where
  "altSpaceKeyDown env uMsg wParam \<longleftrightarrow>
     (uMsg = WM_KEYDOWN \<or> uMsg = WM_SYSKEYDOWN) \<and>
     (wParam = VK_MENU \<or> sint (GetKeyState env VK_MENU) < 0) \<and>
     (wParam = VK_SPACE \<or> sint (GetKeyState env VK_SPACE) < 0)"

text \<open>Where a menu requested from the keyboard is placed: 30 below the window's top-left corner.\<close>

definition belowWindowCorner :: "Env \<Rightarrow> HWND \<Rightarrow> POINT" where
  "belowWindowCorner env hWnd = QPoint (windowRectLeft env hWnd) (windowRectTop env hWnd + 30)"

section \<open>Concrete inputs\<close>

text \<open>The window of the specification's scenario, a window narrower than two borders, and a maximized one.\<close>

definition window640x480 :: QWindow where
  "window640x480 = \<lparr>visibility = Windowed, width = 640, height = 480\<rparr>"

definition window10x100 :: QWindow where
  "window10x100 = \<lparr>visibility = Windowed, width = 10, height = 100\<rparr>"

definition maximizedWindow :: QWindow where
  "maximizedWindow = \<lparr>visibility = Maximized, width = 1920, height = 1080\<rparr>"

text \<open>A title area that is the top 30 rows of the window.\<close>

definition titleBarTop30 :: "QPoint \<Rightarrow> bool" where
  "titleBarTop30 p \<longleftrightarrow> 0 \<le> py p \<and> py p < 30"

definition resizableContext :: WindowContext where
  "resizableContext =
     \<lparr>isHostSizeFixed = False, window = Some window640x480,
      isInTitleBarDraggableArea = titleBarTop30,
      getWindowFlags = {WindowMaximizeButtonHint, WindowMinimizeButtonHint},
      getWindowState = {WindowActive}\<rparr>"

definition fixedSizeContext :: WindowContext where
  "fixedSizeContext =
     \<lparr>isHostSizeFixed = True, window = Some window640x480,
      isInTitleBarDraggableArea = titleBarTop30,
      getWindowFlags = {WindowMaximizeButtonHint, WindowMinimizeButtonHint},
      getWindowState = {WindowActive}\<rparr>"

definition mouseEvent :: "EventType \<Rightarrow> MouseButton \<Rightarrow> int \<Rightarrow> int \<Rightarrow> QMouseEvent" where
  "mouseEvent t b x y =
     \<lparr>etype = t, button = b, scenePos = QPoint x y, globalPos = QPoint (x + 100) (y + 50)\<rparr>"

text \<open>
  Two window handles, a system menu before it is configured, and a state in
  which no window is hooked: every window runs a handler of the toolkit, the
  main window has a system menu and the other windows have none.
\<close>

definition mainHwnd :: HWND where
  "mainHwnd = 1"

definition toolHwnd :: HWND where
  "toolHwnd = 2"

definition plainMenu :: HMENU where
  "plainMenu = \<lparr>itemEnabled = (\<lambda>_. True), itemHilited = (\<lambda>_. False), defaultItem = UINT_MAX\<rparr>"

definition freshWorld :: World where
  "freshWorld =
     \<lparr>wndProc = (\<lambda>_. Some (ForeignWindowProc 7)),
      g_qtContextHash = Map.empty,
      systemMenu = (\<lambda>h. if h = mainHwnd then Some plainMenu else None),
      popups = [],
      posted = []\<rparr>"

definition hookedWorld :: World where
  "hookedWorld = installSystemMenuHook freshWorld mainHwnd resizableContext"

text \<open>
  An environment in which every window is maximized and has the style
  \<^verbatim>\<open>WS_OVERLAPPEDWINDOW\<close> (which holds both box styles), the Alt key is held
  and no other key, and the user picks Restore.
\<close>

definition desktopEnv :: Env where
  "desktopEnv =
     \<lparr>windowStyles = (\<lambda>_. 0x00CF0000),
      IsZoomed = (\<lambda>_. True),
      windowRectLeft = (\<lambda>_. 100),
      windowRectTop = (\<lambda>_. 50),
      ClientToScreen = (\<lambda>_ p. QPoint (px p + 100) (py p + 50)),
      GetKeyState = (\<lambda>k. if k = VK_MENU then 0x8000 else 0),
      isRightToLeft = False,
      fromNativeLocalPosition = (\<lambda>p _. p),
      TrackPopupMenu = (\<lambda>_ _. SC_RESTORE)\<rparr>"

section \<open>Properties of the geometry\<close>

lemma near_simps:
  "nearLeft win pos \<longleftrightarrow> px pos < 8"
  "nearRight win pos \<longleftrightarrow> width win - 8 \<le> px pos"
  "nearTop win pos \<longleftrightarrow> py pos < 8"
  "nearBottom win pos \<longleftrightarrow> height win - 8 \<le> py pos"
  by (simp_all add: nearLeft_def nearRight_def nearTop_def nearBottom_def
      kDefaultResizeBorderThickness_def)

lemma calculateCursorShape_Windowed:
  "visibility win = Windowed \<Longrightarrow>
   calculateCursorShape (Some win) pos =
     (if (nearLeft win pos \<and> nearTop win pos) \<or> (nearRight win pos \<and> nearBottom win pos)
      then SizeFDiagCursor
      else if (nearRight win pos \<and> nearTop win pos) \<or> (nearLeft win pos \<and> nearBottom win pos)
      then SizeBDiagCursor
      else if nearLeft win pos \<or> nearRight win pos then SizeHorCursor
      else if nearTop win pos \<or> nearBottom win pos then SizeVerCursor
      else ArrowCursor)"
  by (simp add: calculateCursorShape_def near_simps kDefaultResizeBorderThickness_def Let_def)

lemma calculateWindowEdges_Windowed:
  "visibility win = Windowed \<Longrightarrow>
   calculateWindowEdges (Some win) pos =
     (if nearLeft win pos then {LeftEdge} else {}) \<union>
     (if nearRight win pos then {RightEdge} else {}) \<union>
     (if nearTop win pos then {TopEdge} else {}) \<union>
     (if nearBottom win pos then {BottomEdge} else {})"
  by (auto simp add: calculateWindowEdges_def near_simps kDefaultResizeBorderThickness_def Let_def)

lemma not_Windowed:
  "visibility win \<noteq> Windowed \<Longrightarrow>
   calculateWindowEdges (Some win) pos = {} \<and> calculateCursorShape (Some win) pos = ArrowCursor"
  by (simp add: calculateWindowEdges_def calculateCursorShape_def)

text \<open>A null window gives no edge and the arrow.\<close>

lemma null_window:
  "calculateWindowEdges None pos = {} \<and> calculateCursorShape None pos = ArrowCursor"
  by (simp add: calculateWindowEdges_def calculateCursorShape_def)

text \<open>
  In a window that is at least two borders wide, no position is within the
  border thickness of both the left and the right edge; likewise for the height.
\<close>

lemma opposite_bands_disjoint:
  "16 \<le> width win \<Longrightarrow> \<not> (nearLeft win pos \<and> nearRight win pos)"
  "16 \<le> height win \<Longrightarrow> \<not> (nearTop win pos \<and> nearBottom win pos)"
  by (simp_all add: near_simps)

text \<open>
  C2, as stated, fails: in the window 10 wide and 100 high the position (6, 2)
  is inside the window, within the border thickness of the right and of the top
  edge (the top-right corner), and the cursor is \<open>SizeFDiagCursor\<close>, the cursor of
  the top-left corner, not \<open>SizeBDiagCursor\<close>. In so narrow a window the position
  is in the top-left corner as well, whose test comes first.
\<close>

theorem top_right_corner_counterexample:
  "visibility window10x100 = Windowed \<and>
   0 \<le> px (QPoint 6 2) \<and> px (QPoint 6 2) < width window10x100 \<and>
   0 \<le> py (QPoint 6 2) \<and> py (QPoint 6 2) < height window10x100 \<and>
   nearRight window10x100 (QPoint 6 2) \<and> nearTop window10x100 (QPoint 6 2) \<and>
   calculateCursorShape (Some window10x100) (QPoint 6 2) = SizeFDiagCursor \<and>
   calculateCursorShape (Some window10x100) (QPoint 6 2) \<noteq> SizeBDiagCursor"
  by (simp add: window10x100_def near_simps calculateCursorShape_def
      kDefaultResizeBorderThickness_def)

text \<open>
  C2 (amended): for every window and pointer position, a window whose
  visibility is not \<open>Windowed\<close> gives the empty edge set and the arrow. A
  \<open>Windowed\<close> window is divided by the border thickness 8 measured from each
  edge, the corners tested before the single edges: a position in the top-left
  or the bottom-right corner gives \<open>SizeFDiagCursor\<close>; a position in the top-right
  or the bottom-left corner that is in neither of those two gives
  \<open>SizeBDiagCursor\<close>; a position in the left or right band and in no corner gives
  \<open>SizeHorCursor\<close>; a position in the top or bottom band and in no corner gives
  \<open>SizeVerCursor\<close>; a position in no band gives the arrow and the empty edge set.
\<close>

theorem cursor_and_edges_by_region:
  "(visibility win \<noteq> Windowed \<longrightarrow>
      calculateWindowEdges (Some win) pos = {} \<and>
      calculateCursorShape (Some win) pos = ArrowCursor) \<and>
   (visibility win = Windowed \<longrightarrow>
      ((nearLeft win pos \<and> nearTop win pos) \<or> (nearRight win pos \<and> nearBottom win pos) \<longrightarrow>
         calculateCursorShape (Some win) pos = SizeFDiagCursor) \<and>
      (((nearRight win pos \<and> nearTop win pos) \<or> (nearLeft win pos \<and> nearBottom win pos)) \<and>
       \<not> ((nearLeft win pos \<and> nearTop win pos) \<or> (nearRight win pos \<and> nearBottom win pos)) \<longrightarrow>
         calculateCursorShape (Some win) pos = SizeBDiagCursor) \<and>
      ((nearLeft win pos \<or> nearRight win pos) \<and> \<not> nearTop win pos \<and> \<not> nearBottom win pos \<longrightarrow>
         calculateCursorShape (Some win) pos = SizeHorCursor) \<and>
      ((nearTop win pos \<or> nearBottom win pos) \<and> \<not> nearLeft win pos \<and> \<not> nearRight win pos \<longrightarrow>
         calculateCursorShape (Some win) pos = SizeVerCursor) \<and>
      (\<not> nearLeft win pos \<and> \<not> nearRight win pos \<and> \<not> nearTop win pos \<and> \<not> nearBottom win pos \<longrightarrow>
         calculateCursorShape (Some win) pos = ArrowCursor \<and>
         calculateWindowEdges (Some win) pos = {}))"
proof (cases "visibility win = Windowed")
  case False
  then show ?thesis
    using not_Windowed [of win pos] by simp
next
  case True
  then show ?thesis
    by (simp add: calculateCursorShape_Windowed calculateWindowEdges_Windowed)
qed

text \<open>
  The theorem at the maximized window, and in the window 640 by 480 at a
  position of each kind: the two corners of each diagonal, a side band, the top
  band and the interior.
\<close>

theorem cursor_and_edges_by_region_witness:
  "visibility maximizedWindow \<noteq> Windowed \<and>
   calculateWindowEdges (Some maximizedWindow) (QPoint 3 3) = {} \<and>
   calculateCursorShape (Some maximizedWindow) (QPoint 3 3) = ArrowCursor \<and>
   visibility window640x480 = Windowed \<and>
   calculateCursorShape (Some window640x480) (QPoint 3 3) = SizeFDiagCursor \<and>
   calculateCursorShape (Some window640x480) (QPoint 637 477) = SizeFDiagCursor \<and>
   calculateCursorShape (Some window640x480) (QPoint 637 3) = SizeBDiagCursor \<and>
   calculateCursorShape (Some window640x480) (QPoint 3 477) = SizeBDiagCursor \<and>
   calculateCursorShape (Some window640x480) (QPoint 2 240) = SizeHorCursor \<and>
   calculateCursorShape (Some window640x480) (QPoint 320 2) = SizeVerCursor \<and>
   calculateCursorShape (Some window640x480) (QPoint 320 240) = ArrowCursor \<and>
   calculateWindowEdges (Some window640x480) (QPoint 320 240) = {}"
  using cursor_and_edges_by_region [of maximizedWindow "QPoint 3 3"]
    cursor_and_edges_by_region [of window640x480 "QPoint 3 3"]
    cursor_and_edges_by_region [of window640x480 "QPoint 637 477"]
    cursor_and_edges_by_region [of window640x480 "QPoint 637 3"]
    cursor_and_edges_by_region [of window640x480 "QPoint 3 477"]
    cursor_and_edges_by_region [of window640x480 "QPoint 2 240"]
    cursor_and_edges_by_region [of window640x480 "QPoint 320 2"]
    cursor_and_edges_by_region [of window640x480 "QPoint 320 240"]
  by (simp add: near_simps window640x480_def maximizedWindow_def)

text \<open>
  C3, as stated, fails: in the window 10 wide and 100 high the position (5, 3)
  is within the border thickness of the left and of the top edge, two adjacent
  edges, and the edge set has three members, since the position is within the
  border thickness of the right edge too.
\<close>

theorem corner_three_edges_counterexample:
  "visibility window10x100 = Windowed \<and>
   nearLeft window10x100 (QPoint 5 3) \<and> nearTop window10x100 (QPoint 5 3) \<and>
   calculateWindowEdges (Some window10x100) (QPoint 5 3) = {TopEdge, RightEdge, LeftEdge} \<and>
   card (calculateWindowEdges (Some window10x100) (QPoint 5 3)) = 3"
  by (simp add: window10x100_def near_simps calculateWindowEdges_def
      kDefaultResizeBorderThickness_def)

text \<open>
  C3 (amended): for every \<open>Windowed\<close> window and every pointer position that is
  within the border thickness of two adjacent edges and not within the border
  thickness of two opposite edges, the edge set is exactly that pair of adjacent
  edges, and the cursor is \<open>SizeFDiagCursor\<close> for the top-left and bottom-right
  corners and \<open>SizeBDiagCursor\<close> for the top-right and bottom-left corners. By
  \<open>opposite_bands_disjoint\<close> the second condition holds at every position when the
  window is at least 16 wide and 16 high.
\<close>

theorem corner_edges_and_cursor:
  assumes "visibility win = Windowed"
    and "\<not> (nearLeft win pos \<and> nearRight win pos)"
    and "\<not> (nearTop win pos \<and> nearBottom win pos)"
  shows "(nearLeft win pos \<and> nearTop win pos \<longrightarrow>
            calculateWindowEdges (Some win) pos = {TopEdge, LeftEdge} \<and>
            card (calculateWindowEdges (Some win) pos) = 2 \<and>
            calculateCursorShape (Some win) pos = SizeFDiagCursor) \<and>
         (nearRight win pos \<and> nearBottom win pos \<longrightarrow>
            calculateWindowEdges (Some win) pos = {BottomEdge, RightEdge} \<and>
            card (calculateWindowEdges (Some win) pos) = 2 \<and>
            calculateCursorShape (Some win) pos = SizeFDiagCursor) \<and>
         (nearRight win pos \<and> nearTop win pos \<longrightarrow>
            calculateWindowEdges (Some win) pos = {TopEdge, RightEdge} \<and>
            card (calculateWindowEdges (Some win) pos) = 2 \<and>
            calculateCursorShape (Some win) pos = SizeBDiagCursor) \<and>
         (nearLeft win pos \<and> nearBottom win pos \<longrightarrow>
            calculateWindowEdges (Some win) pos = {BottomEdge, LeftEdge} \<and>
            card (calculateWindowEdges (Some win) pos) = 2 \<and>
            calculateCursorShape (Some win) pos = SizeBDiagCursor)"
  using assms
  by (auto simp add: calculateCursorShape_Windowed calculateWindowEdges_Windowed)

text \<open>The theorem at the four corners of the window 640 by 480.\<close>

theorem corner_edges_and_cursor_witness:
  "visibility window640x480 = Windowed \<and>
   nearLeft window640x480 (QPoint 3 3) \<and> nearTop window640x480 (QPoint 3 3) \<and>
   \<not> nearRight window640x480 (QPoint 3 3) \<and> \<not> nearBottom window640x480 (QPoint 3 3) \<and>
   calculateWindowEdges (Some window640x480) (QPoint 3 3) = {TopEdge, LeftEdge} \<and>
   calculateCursorShape (Some window640x480) (QPoint 3 3) = SizeFDiagCursor \<and>
   calculateWindowEdges (Some window640x480) (QPoint 637 477) = {BottomEdge, RightEdge} \<and>
   calculateCursorShape (Some window640x480) (QPoint 637 477) = SizeFDiagCursor \<and>
   calculateWindowEdges (Some window640x480) (QPoint 637 3) = {TopEdge, RightEdge} \<and>
   calculateCursorShape (Some window640x480) (QPoint 637 3) = SizeBDiagCursor \<and>
   calculateWindowEdges (Some window640x480) (QPoint 3 477) = {BottomEdge, LeftEdge} \<and>
   calculateCursorShape (Some window640x480) (QPoint 3 477) = SizeBDiagCursor \<and>
   card (calculateWindowEdges (Some window640x480) (QPoint 3 477)) = 2"
  using corner_edges_and_cursor [of window640x480 "QPoint 3 3"]
    corner_edges_and_cursor [of window640x480 "QPoint 637 477"]
    corner_edges_and_cursor [of window640x480 "QPoint 637 3"]
    corner_edges_and_cursor [of window640x480 "QPoint 3 477"]
  by (simp add: near_simps window640x480_def)

section \<open>Properties of the interaction state machine\<close>

lemmas filter_defs =
  sharedEventFilter_def onMouseButtonPress_def onMouseButtonRelease_def
  onMouseMove_def onMouseButtonDblClick_def result_def setStatus_def Let_def

lemmas input_defs =
  resizableContext_def fixedSizeContext_def mouseEvent_def titleBarTop30_def
  window640x480_def QtWindowEventFilter_def

text \<open>
  C1, as stated, fails: the window 640 by 480 can be resized and its title area
  is the top 30 rows. A left press at (320, 3) is in the title area and on the
  top resize edge, so from \<open>Idle\<close> it starts a resize and the status is
  \<open>Resizing\<close>, not \<open>PreparingMove\<close>; the move that follows is not swallowed, calls
  no \<^verbatim>\<open>startSystemMove\<close> and leaves the status \<open>Resizing\<close>.
\<close>

theorem title_press_on_resize_edge_counterexample:
  "m_windowStatus QtWindowEventFilter = Idle \<and>
   isInTitleBarDraggableArea resizableContext
     (scenePos (mouseEvent MouseButtonPress LeftButton 320 3)) \<and>
   map (\<lambda>r. m_windowStatus (after r))
     (filterEvents resizableContext QtWindowEventFilter
        [mouseEvent MouseButtonPress LeftButton 320 3, mouseEvent MouseMove NoButton 330 10])
     = [Resizing, Resizing] \<and>
   map calls
     (filterEvents resizableContext QtWindowEventFilter
        [mouseEvent MouseButtonPress LeftButton 320 3, mouseEvent MouseMove NoButton 330 10])
     = [ [StartSystemResize {TopEdge}], [] ] \<and>
   map filtered
     (filterEvents resizableContext QtWindowEventFilter
        [mouseEvent MouseButtonPress LeftButton 320 3, mouseEvent MouseMove NoButton 330 10])
     = [True, False] \<and>
   startSystemMoveCount
     (filterEvents resizableContext QtWindowEventFilter
        [mouseEvent MouseButtonPress LeftButton 320 3, mouseEvent MouseMove NoButton 330 10])
     = 0"
  by (simp add: filter_defs input_defs startSystemMoveCount_def calculateWindowEdges_def
      kDefaultResizeBorderThickness_def)

text \<open>
  C1 (amended): a left-button press in the title-bar draggable area followed at
  once by a button release never calls \<^verbatim>\<open>startSystemMove\<close>, swallows both events
  and leaves the machine in \<open>Idle\<close>. When the press starts no resize (the window
  is fixed-size, or the position is on no resize edge), the press leaves the
  machine in \<open>PreparingMove\<close>, and a move event that follows takes it to \<open>Moving\<close>,
  calls \<^verbatim>\<open>startSystemMove\<close> exactly once and is swallowed. The press handler
  does not read the status, so this holds from \<open>Idle\<close> and from every other state.
\<close>

theorem title_press_then_release_or_move:
  assumes "etype press = MouseButtonPress" and "button press = LeftButton"
    and "isInTitleBarDraggableArea ctx (scenePos press)"
    and "etype release = MouseButtonRelease" and "etype move = MouseMove"
  shows "map filtered (filterEvents ctx st [press, release]) = [True, True] \<and>
         startSystemMoveCount (filterEvents ctx st [press, release]) = 0 \<and>
         m_windowStatus (after (last (filterEvents ctx st [press, release]))) = Idle \<and>
         (isHostSizeFixed ctx \<or> calculateWindowEdges (window ctx) (scenePos press) = {} \<longrightarrow>
            map (\<lambda>r. m_windowStatus (after r)) (filterEvents ctx st [press, move])
              = [PreparingMove, Moving] \<and>
            map calls (filterEvents ctx st [press, move]) = [ [], [StartSystemMove] ] \<and>
            startSystemMoveCount (filterEvents ctx st [press, move]) = 1 \<and>
            map filtered (filterEvents ctx st [press, move]) = [True, True])"
  using assms by (auto simp add: filter_defs startSystemMoveCount_def)

text \<open>
  The theorem from the initial state, for a press at (320, 20): in the title
  area and on no resize edge.
\<close>

theorem title_press_then_release_or_move_witness:
  "m_windowStatus QtWindowEventFilter = Idle \<and>
   etype (mouseEvent MouseButtonPress LeftButton 320 20) = MouseButtonPress \<and>
   button (mouseEvent MouseButtonPress LeftButton 320 20) = LeftButton \<and>
   isInTitleBarDraggableArea resizableContext
     (scenePos (mouseEvent MouseButtonPress LeftButton 320 20)) \<and>
   etype (mouseEvent MouseButtonRelease LeftButton 320 20) = MouseButtonRelease \<and>
   etype (mouseEvent MouseMove NoButton 330 25) = MouseMove \<and>
   calculateWindowEdges (window resizableContext)
     (scenePos (mouseEvent MouseButtonPress LeftButton 320 20)) = {} \<and>
   map filtered
     (filterEvents resizableContext QtWindowEventFilter
        [mouseEvent MouseButtonPress LeftButton 320 20,
         mouseEvent MouseButtonRelease LeftButton 320 20]) = [True, True] \<and>
   startSystemMoveCount
     (filterEvents resizableContext QtWindowEventFilter
        [mouseEvent MouseButtonPress LeftButton 320 20,
         mouseEvent MouseButtonRelease LeftButton 320 20]) = 0 \<and>
   m_windowStatus (after (last
     (filterEvents resizableContext QtWindowEventFilter
        [mouseEvent MouseButtonPress LeftButton 320 20,
         mouseEvent MouseButtonRelease LeftButton 320 20]))) = Idle \<and>
   map (\<lambda>r. m_windowStatus (after r))
     (filterEvents resizableContext QtWindowEventFilter
        [mouseEvent MouseButtonPress LeftButton 320 20, mouseEvent MouseMove NoButton 330 25])
     = [PreparingMove, Moving] \<and>
   startSystemMoveCount
     (filterEvents resizableContext QtWindowEventFilter
        [mouseEvent MouseButtonPress LeftButton 320 20, mouseEvent MouseMove NoButton 330 25])
     = 1 \<and>
   map filtered
     (filterEvents resizableContext QtWindowEventFilter
        [mouseEvent MouseButtonPress LeftButton 320 20, mouseEvent MouseMove NoButton 330 25])
     = [True, True]"
proof -
  have edges: "calculateWindowEdges (window resizableContext)
      (scenePos (mouseEvent MouseButtonPress LeftButton 320 20)) = {}"
    by (simp add: input_defs calculateWindowEdges_def kDefaultResizeBorderThickness_def)
  have title: "isInTitleBarDraggableArea resizableContext
      (scenePos (mouseEvent MouseButtonPress LeftButton 320 20))"
    by (simp add: input_defs)
  have types: "etype (mouseEvent MouseButtonPress LeftButton 320 20) = MouseButtonPress"
    "button (mouseEvent MouseButtonPress LeftButton 320 20) = LeftButton"
    "etype (mouseEvent MouseButtonRelease LeftButton 320 20) = MouseButtonRelease"
    "etype (mouseEvent MouseMove NoButton 330 25) = MouseMove"
    by (simp_all add: mouseEvent_def)
  have idle: "m_windowStatus QtWindowEventFilter = Idle"
    by (simp add: QtWindowEventFilter_def)
  show ?thesis
    using title_press_then_release_or_move
      [OF types(1) types(2) title types(3) types(4), of QtWindowEventFilter]
      edges title types idle
    by simp
qed

text \<open>
  C8: a left-button double-click in the title-bar draggable area. When the
  window is not fixed-size, has the maximize button hint and is not fullscreen,
  the filter makes exactly one call, \<^verbatim>\<open>setWindowState\<close> with the maximized flag
  toggled and every other state flag as it was, and swallows the event. When the
  window is fixed-size or lacks the hint, the filter makes no call and forwards
  the event. The status of the machine is unchanged in both cases.
\<close>

theorem double_click_toggles_maximized:
  assumes "etype event = MouseButtonDblClick" and "button event = LeftButton"
    and "isInTitleBarDraggableArea ctx (scenePos event)"
  shows "(\<not> isHostSizeFixed ctx \<and> WindowMaximizeButtonHint \<in> getWindowFlags ctx \<and>
          WindowFullScreen \<notin> getWindowState ctx \<longrightarrow>
            filtered (sharedEventFilter ctx st event) \<and>
            after (sharedEventFilter ctx st event) = st \<and>
            (\<exists>s. calls (sharedEventFilter ctx st event) = [SetWindowState s] \<and>
                 (WindowMaximized \<in> s \<longleftrightarrow> WindowMaximized \<notin> getWindowState ctx) \<and>
                 s - {WindowMaximized} = getWindowState ctx - {WindowMaximized})) \<and>
         (isHostSizeFixed ctx \<or> WindowMaximizeButtonHint \<notin> getWindowFlags ctx \<longrightarrow>
            \<not> filtered (sharedEventFilter ctx st event) \<and>
            after (sharedEventFilter ctx st event) = st \<and>
            calls (sharedEventFilter ctx st event) = [])"
  using assms by (auto simp add: filter_defs)

text \<open>The theorem for a window that can be maximized and for a fixed-size window.\<close>

theorem double_click_toggles_maximized_witness:
  "etype (mouseEvent MouseButtonDblClick LeftButton 320 20) = MouseButtonDblClick \<and>
   button (mouseEvent MouseButtonDblClick LeftButton 320 20) = LeftButton \<and>
   isInTitleBarDraggableArea resizableContext
     (scenePos (mouseEvent MouseButtonDblClick LeftButton 320 20)) \<and>
   \<not> isHostSizeFixed resizableContext \<and>
   WindowMaximizeButtonHint \<in> getWindowFlags resizableContext \<and>
   WindowFullScreen \<notin> getWindowState resizableContext \<and>
   filtered (sharedEventFilter resizableContext QtWindowEventFilter
     (mouseEvent MouseButtonDblClick LeftButton 320 20)) \<and>
   (\<exists>s. calls (sharedEventFilter resizableContext QtWindowEventFilter
           (mouseEvent MouseButtonDblClick LeftButton 320 20)) = [SetWindowState s] \<and>
        WindowMaximized \<in> s) \<and>
   isHostSizeFixed fixedSizeContext \<and>
   \<not> filtered (sharedEventFilter fixedSizeContext QtWindowEventFilter
     (mouseEvent MouseButtonDblClick LeftButton 320 20)) \<and>
   calls (sharedEventFilter fixedSizeContext QtWindowEventFilter
     (mouseEvent MouseButtonDblClick LeftButton 320 20)) = []"
proof -
  have ev: "etype (mouseEvent MouseButtonDblClick LeftButton 320 20) = MouseButtonDblClick"
    "button (mouseEvent MouseButtonDblClick LeftButton 320 20) = LeftButton"
    by (simp_all add: mouseEvent_def)
  have t1: "isInTitleBarDraggableArea resizableContext
      (scenePos (mouseEvent MouseButtonDblClick LeftButton 320 20))"
    by (simp add: input_defs)
  have t2: "isInTitleBarDraggableArea fixedSizeContext
      (scenePos (mouseEvent MouseButtonDblClick LeftButton 320 20))"
    by (simp add: input_defs)
  have flags: "\<not> isHostSizeFixed resizableContext"
    "WindowMaximizeButtonHint \<in> getWindowFlags resizableContext"
    "WindowFullScreen \<notin> getWindowState resizableContext"
    "WindowMaximized \<notin> getWindowState resizableContext"
    "isHostSizeFixed fixedSizeContext"
    by (simp_all add: resizableContext_def fixedSizeContext_def)
  show ?thesis
    using double_click_toggles_maximized [OF ev t1, of QtWindowEventFilter]
      double_click_toggles_maximized [OF ev t2, of QtWindowEventFilter]
      ev t1 flags
    by auto
qed

text \<open>
  C10: from every prior state, a mouse-button-release event leaves the machine
  in \<open>Idle\<close>. Nothing else of the state changes, and the filter makes no call.
\<close>

theorem release_returns_to_Idle:
  assumes "etype event = MouseButtonRelease"
  shows "m_windowStatus (after (sharedEventFilter ctx st event)) = Idle \<and>
         after (sharedEventFilter ctx st event) = st\<lparr>m_windowStatus := Idle\<rparr> \<and>
         calls (sharedEventFilter ctx st event) = []"
  using assms by (cases "m_windowStatus st") (auto simp add: filter_defs)

text \<open>The theorem for a release outside the title area, from each of the five states.\<close>

theorem release_returns_to_Idle_witness:
  "etype (mouseEvent MouseButtonRelease LeftButton 320 240) = MouseButtonRelease \<and>
   list_all
     (\<lambda>s. m_windowStatus (after (sharedEventFilter resizableContext
              \<lparr>m_cursorShapeChanged = True, m_windowStatus = s\<rparr>
              (mouseEvent MouseButtonRelease LeftButton 320 240))) = Idle)
     [Idle, WaitingRelease, PreparingMove, Moving, Resizing]"
proof -
  have ev: "etype (mouseEvent MouseButtonRelease LeftButton 320 240) = MouseButtonRelease"
    by (simp add: mouseEvent_def)
  show ?thesis
    using release_returns_to_Idle [OF ev, of resizableContext] ev by simp
qed

section \<open>Properties of the system menu\<close>

lemmas sc_defs =
  SC_SIZE_def SC_MOVE_def SC_MINIMIZE_def SC_MAXIMIZE_def SC_CLOSE_def SC_RESTORE_def
  UINT_MAX_def

text \<open>
  Neither command identifier is \<^verbatim>\<open>UINT_MAX\<close>, so the assignment of \<^verbatim>\<open>SC_CLOSE\<close> is
  never reached.
\<close>

lemma defaultItemId_eq: "defaultItemId m = (if m then SC_RESTORE else SC_MAXIMIZE)"
  by (simp add: defaultItemId_def sc_defs)

lemma configureMenu_items:
  "itemEnabled (configureMenu hMenu allowMaximize allowMinimize m sel fixedSize) SC_CLOSE = True"
  "itemEnabled (configureMenu hMenu allowMaximize allowMinimize m sel fixedSize) SC_MAXIMIZE
     = (\<not> (m \<or> fixedSize \<or> \<not> allowMaximize))"
  "itemEnabled (configureMenu hMenu allowMaximize allowMinimize m sel fixedSize) SC_RESTORE
     = (m \<and> \<not> fixedSize \<and> allowMaximize)"
  "itemEnabled (configureMenu hMenu allowMaximize allowMinimize m sel fixedSize) SC_MINIMIZE
     = allowMinimize"
  "itemEnabled (configureMenu hMenu allowMaximize allowMinimize m sel fixedSize) SC_SIZE
     = (\<not> (m \<or> fixedSize))"
  "itemEnabled (configureMenu hMenu allowMaximize allowMinimize m sel fixedSize) SC_MOVE
     = (\<not> m)"
  "defaultItem (configureMenu hMenu allowMaximize allowMinimize m sel fixedSize)
     = (if m then SC_RESTORE else SC_MAXIMIZE)"
  by (simp_all add: configureMenu_def EnableMenuItem_def HiliteMenuItem_def
      SetMenuDefaultItem_def defaultItemId_eq Let_def)
     (simp_all add: sc_defs)

text \<open>The one item the code highlights is Restore, when the menu was requested from the keyboard.\<close>

lemma configureMenu_hilite:
  "itemHilited (configureMenu hMenu allowMaximize allowMinimize m sel fixedSize) item
     = (if item = SC_RESTORE then sel else itemHilited hMenu item)"
  by (simp add: configureMenu_def EnableMenuItem_def HiliteMenuItem_def
      SetMenuDefaultItem_def Let_def)

lemma showSystemMenu_sys_popup:
  "systemMenu w hWnd = Some hMenu \<Longrightarrow>
   popups (snd (showSystemMenu_sys env w hWnd pos sel fixedSize)) =
     popups w @
     [\<lparr>popupMenu = configureMenu hMenu (windowStyles env hWnd AND WS_MAXIMIZEBOX \<noteq> 0)
          (windowStyles env hWnd AND WS_MINIMIZEBOX \<noteq> 0) (IsZoomed env hWnd) sel fixedSize,
       rightAligned = isRightToLeft env, popupPos = pos, popupOwner = hWnd\<rparr>]"
  by (simp add: showSystemMenu_sys_def Let_def)

text \<open>The hook table and the window procedures are not touched by the system menu.\<close>

lemma showSystemMenu_sys_frame:
  "g_qtContextHash (snd (showSystemMenu_sys env w hWnd pos sel fixedSize)) = g_qtContextHash w \<and>
   wndProc (snd (showSystemMenu_sys env w hWnd pos sel fixedSize)) = wndProc w"
  by (simp add: showSystemMenu_sys_def Let_def split: option.splits)

lemma env_simps:
  "windowStyles desktopEnv h AND WS_MAXIMIZEBOX \<noteq> 0"
  "windowStyles desktopEnv h AND WS_MINIMIZEBOX \<noteq> 0"
  "IsZoomed desktopEnv h"
  by (simp_all add: desktopEnv_def WS_MAXIMIZEBOX_def WS_MINIMIZEBOX_def)

text \<open>
  C7: when the window has a system menu, the menu that \<^verbatim>\<open>showSystemMenu_sys\<close>
  shows has Close enabled; Maximize disabled exactly when the window is
  maximized, fixed-size or without \<^verbatim>\<open>WS_MAXIMIZEBOX\<close>; Restore enabled exactly
  when it is maximized, not fixed-size and has \<^verbatim>\<open>WS_MAXIMIZEBOX\<close>; Minimize
  enabled exactly when it has \<^verbatim>\<open>WS_MINIMIZEBOX\<close>; Size disabled exactly when it
  is maximized or fixed-size; Move disabled exactly when it is maximized; and
  the default item is Restore when the window is maximized and Maximize
  otherwise. One of the two always applies, so the default is never Close. None
  of this depends on the menu's earlier state, the position or the user's pick.
\<close>

theorem system_menu_enablement:
  assumes "systemMenu w hWnd = Some hMenu"
  shows
    "itemEnabled (popupMenu (last (popups (snd
        (showSystemMenu_sys env w hWnd pos sel fixedSize))))) SC_CLOSE \<and>
     (\<not> itemEnabled (popupMenu (last (popups (snd
        (showSystemMenu_sys env w hWnd pos sel fixedSize))))) SC_MAXIMIZE
       \<longleftrightarrow> IsZoomed env hWnd \<or> fixedSize \<or> windowStyles env hWnd AND WS_MAXIMIZEBOX = 0) \<and>
     (itemEnabled (popupMenu (last (popups (snd
        (showSystemMenu_sys env w hWnd pos sel fixedSize))))) SC_RESTORE
       \<longleftrightarrow> IsZoomed env hWnd \<and> \<not> fixedSize \<and> windowStyles env hWnd AND WS_MAXIMIZEBOX \<noteq> 0) \<and>
     (itemEnabled (popupMenu (last (popups (snd
        (showSystemMenu_sys env w hWnd pos sel fixedSize))))) SC_MINIMIZE
       \<longleftrightarrow> windowStyles env hWnd AND WS_MINIMIZEBOX \<noteq> 0) \<and>
     (\<not> itemEnabled (popupMenu (last (popups (snd
        (showSystemMenu_sys env w hWnd pos sel fixedSize))))) SC_SIZE
       \<longleftrightarrow> IsZoomed env hWnd \<or> fixedSize) \<and>
     (\<not> itemEnabled (popupMenu (last (popups (snd
        (showSystemMenu_sys env w hWnd pos sel fixedSize))))) SC_MOVE
       \<longleftrightarrow> IsZoomed env hWnd) \<and>
     defaultItem (popupMenu (last (popups (snd
        (showSystemMenu_sys env w hWnd pos sel fixedSize)))))
       = (if IsZoomed env hWnd then SC_RESTORE else SC_MAXIMIZE) \<and>
     defaultItem (popupMenu (last (popups (snd
        (showSystemMenu_sys env w hWnd pos sel fixedSize))))) \<noteq> SC_CLOSE"
  by (simp add: showSystemMenu_sys_popup [OF assms] configureMenu_items)
     (simp add: sc_defs)

text \<open>
  The theorem for the maximized main window, which is not fixed-size and has both
  box styles: Maximize disabled, Restore enabled, default item Restore.
\<close>

theorem system_menu_enablement_witness:
  "systemMenu freshWorld mainHwnd = Some plainMenu \<and>
   \<not> itemEnabled (popupMenu (last (popups (snd
        (showSystemMenu_sys desktopEnv freshWorld mainHwnd (QPoint 200 80) False False))))) SC_MAXIMIZE \<and>
   itemEnabled (popupMenu (last (popups (snd
        (showSystemMenu_sys desktopEnv freshWorld mainHwnd (QPoint 200 80) False False))))) SC_RESTORE \<and>
   itemEnabled (popupMenu (last (popups (snd
        (showSystemMenu_sys desktopEnv freshWorld mainHwnd (QPoint 200 80) False False))))) SC_CLOSE \<and>
   defaultItem (popupMenu (last (popups (snd
        (showSystemMenu_sys desktopEnv freshWorld mainHwnd (QPoint 200 80) False False))))) = SC_RESTORE"
proof -
  have menu: "systemMenu freshWorld mainHwnd = Some plainMenu"
    by (simp add: freshWorld_def)
  show ?thesis
    using system_menu_enablement [OF menu, of desktopEnv "QPoint 200 80" False False] menu
    by (simp add: env_simps)
qed

text \<open>
  C9: when the window has no system menu (\<^verbatim>\<open>GetSystemMenu\<close> returns null),
  \<^verbatim>\<open>showSystemMenu_sys\<close> returns \<open>True\<close> and leaves the state as it was: no menu is
  configured, no popup is shown and no message is posted.
\<close>

theorem no_system_menu_is_noop:
  assumes "systemMenu w hWnd = None"
  shows "showSystemMenu_sys env w hWnd pos selectFirstEntry fixedSize = (True, w)"
  using assms by (simp add: showSystemMenu_sys_def)

text \<open>The theorem for the tool window, which has no system menu.\<close>

theorem no_system_menu_is_noop_witness:
  "systemMenu freshWorld toolHwnd = None \<and>
   showSystemMenu_sys desktopEnv freshWorld toolHwnd (QPoint 200 80) True False = (True, freshWorld)"
proof -
  have none: "systemMenu freshWorld toolHwnd = None"
    by (simp add: freshWorld_def mainHwnd_def toolHwnd_def)
  show ?thesis
    using no_system_menu_is_noop [OF none, of desktopEnv "QPoint 200 80" True False] none
    by simp
qed

section \<open>Properties of the hook table\<close>

lemmas msg_defs =
  WM_RBUTTONUP_def WM_NCRBUTTONUP_def WM_SYSCOMMAND_def WM_KEYDOWN_def WM_SYSKEYDOWN_def

lemmas trigger_defs =
  captionRightButtonUp_def nonClientCaptionRightButtonUp_def keyboardSystemMenuCommand_def
  altSpaceKeyDown_def belowWindowCorner_def

lemma systemMenuRequest_cases:
  "systemMenuRequest env data hWnd uMsg wParam lParam =
     (if captionRightButtonUp env data uMsg lParam
      then Some (ClientToScreen env hWnd (QPoint (GET_X_LPARAM lParam) (GET_Y_LPARAM lParam)),
                 False)
      else if nonClientCaptionRightButtonUp uMsg wParam
      then Some (QPoint (GET_X_LPARAM lParam) (GET_Y_LPARAM lParam), False)
      else if keyboardSystemMenuCommand uMsg wParam lParam \<or> altSpaceKeyDown env uMsg wParam
      then Some (belowWindowCorner env hWnd, True)
      else None)"
  by (simp add: systemMenuRequest_def trigger_defs msg_defs Let_def)

text \<open>The four kinds of message have different message numbers, so at most one applies.\<close>

lemma triggers_exclusive:
  "\<not> (captionRightButtonUp env data uMsg lParam \<and> nonClientCaptionRightButtonUp uMsg wParam)"
  "\<not> (captionRightButtonUp env data uMsg lParam \<and> keyboardSystemMenuCommand uMsg wParam lParam)"
  "\<not> (captionRightButtonUp env data uMsg lParam \<and> altSpaceKeyDown env uMsg wParam)"
  "\<not> (nonClientCaptionRightButtonUp uMsg wParam \<and> keyboardSystemMenuCommand uMsg wParam lParam)"
  "\<not> (nonClientCaptionRightButtonUp uMsg wParam \<and> altSpaceKeyDown env uMsg wParam)"
  by (auto simp add: trigger_defs msg_defs)

text \<open>
  The states the program can be in: the table is consistent before any window
  is hooked, and the two operations and the replacement handler keep it so.
\<close>

lemma freshWorld_consistent: "hookTableConsistent freshWorld"
  by (simp add: hookTableConsistent_def freshWorld_def)

lemma install_consistent:
  "hookTableConsistent w \<Longrightarrow> hookTableConsistent (installSystemMenuHook w hwnd ctx)"
  by (auto simp add: hookTableConsistent_def installSystemMenuHook_def split: option.splits)

lemma uninstall_consistent:
  "hookTableConsistent w \<Longrightarrow> hookTableConsistent (uninstallSystemMenuHook w hwnd)"
  by (fastforce simp add: hookTableConsistent_def uninstallSystemMenuHook_def Let_def
      split: option.splits)

lemma dispatch_frame:
  "g_qtContextHash (snd (dispatch env w hWnd uMsg wParam lParam)) = g_qtContextHash w \<and>
   wndProc (snd (dispatch env w hWnd uMsg wParam lParam)) = wndProc w"
  by (simp add: dispatch_def showSystemMenu_sys_frame split: option.splits prod.splits)

lemma dispatch_consistent:
  "hookTableConsistent w \<Longrightarrow> hookTableConsistent (snd (dispatch env w hWnd uMsg wParam lParam))"
  by (simp add: hookTableConsistent_def dispatch_frame)

text \<open>Every record that \<^verbatim>\<open>installSystemMenuHook\<close> adds holds an original handler.\<close>

lemma install_records_original:
  "g_qtContextHash w hwnd = None \<Longrightarrow>
   g_qtContextHash (installSystemMenuHook w hwnd ctx) hwnd = Some data \<Longrightarrow>
   originalWindowProc data = wndProc w hwnd \<and> wndProc w hwnd \<noteq> None \<and> contextPtr data = ctx"
  by (auto simp add: installSystemMenuHook_def dom_def split: option.splits)

lemma install_uninstall_fresh:
  "g_qtContextHash w hwnd = None \<Longrightarrow>
   uninstallSystemMenuHook (installSystemMenuHook w hwnd ctx) hwnd = w"
  by (cases "wndProc w hwnd")
     (simp_all add: installSystemMenuHook_def uninstallSystemMenuHook_def Let_def dom_def
        map_upd_triv)

lemma hookedWorld_simps:
  "g_qtContextHash hookedWorld mainHwnd =
     Some \<lparr>originalWindowProc = Some (ForeignWindowProc 7), contextPtr = resizableContext\<rparr>"
  "wndProc hookedWorld mainHwnd = Some SystemMenuHookWindowProc"
  "g_qtContextHash freshWorld h = None"
  "wndProc freshWorld h = Some (ForeignWindowProc 7)"
  by (simp_all add: hookedWorld_def freshWorld_def installSystemMenuHook_def)

text \<open>
  C4: the replacement handler, for every message. When the window has no record
  in the hook table, the message goes to \<^verbatim>\<open>DefWindowProcW\<close>. When it has one and
  the message is a right-button-up in the title area, a non-client
  right-button-up at the caption hit-test code, the keyboard system-menu command
  or a key-down with Alt and Space, \<^verbatim>\<open>showSystemMenu_sys\<close> runs before the handler
  returns, at the screen position of the click or, from the keyboard, 30 below
  the window's top-left corner, and the handler returns 0 without forwarding.
  Every other message goes to the original handler of the record, with the
  state unchanged.
\<close>

theorem dispatch_cases:
  "(g_qtContextHash w hWnd = None \<longrightarrow>
      dispatch env w hWnd uMsg wParam lParam = (DefWindowProcW hWnd uMsg wParam lParam, w)) \<and>
   (g_qtContextHash w hWnd = Some data \<longrightarrow>
      (captionRightButtonUp env data uMsg lParam \<longrightarrow>
         dispatch env w hWnd uMsg wParam lParam =
           (Returned 0,
            snd (showSystemMenu_sys env w hWnd
                   (ClientToScreen env hWnd (QPoint (GET_X_LPARAM lParam) (GET_Y_LPARAM lParam)))
                   False (isHostSizeFixed (contextPtr data))))) \<and>
      (nonClientCaptionRightButtonUp uMsg wParam \<longrightarrow>
         dispatch env w hWnd uMsg wParam lParam =
           (Returned 0,
            snd (showSystemMenu_sys env w hWnd
                   (QPoint (GET_X_LPARAM lParam) (GET_Y_LPARAM lParam))
                   False (isHostSizeFixed (contextPtr data))))) \<and>
      (keyboardSystemMenuCommand uMsg wParam lParam \<or> altSpaceKeyDown env uMsg wParam \<longrightarrow>
         dispatch env w hWnd uMsg wParam lParam =
           (Returned 0,
            snd (showSystemMenu_sys env w hWnd (belowWindowCorner env hWnd)
                   True (isHostSizeFixed (contextPtr data))))) \<and>
      (\<not> captionRightButtonUp env data uMsg lParam \<and>
       \<not> nonClientCaptionRightButtonUp uMsg wParam \<and>
       \<not> keyboardSystemMenuCommand uMsg wParam lParam \<and>
       \<not> altSpaceKeyDown env uMsg wParam \<longrightarrow>
         (\<forall>p. originalWindowProc data = Some p \<longrightarrow>
            dispatch env w hWnd uMsg wParam lParam =
              (CallWindowProcW p hWnd uMsg wParam lParam, w))))"
  using triggers_exclusive
  by (auto simp add: dispatch_def systemMenuRequest_cases)

text \<open>
  The theorem for the main window before and after it is hooked: a right-button-up at
  the client position (100, 10), a non-client right-button-up on the caption at
  the screen position (200, 60), the keyboard command, Space pressed while Alt
  is held, and \<^verbatim>\<open>WM_PAINT\<close> (message 15), which is forwarded.
\<close>

theorem dispatch_cases_witness:
  "g_qtContextHash freshWorld mainHwnd = None \<and>
   dispatch desktopEnv freshWorld mainHwnd WM_RBUTTONUP 0 0x000A0064
     = (DefWindowProcW mainHwnd WM_RBUTTONUP 0 0x000A0064, freshWorld) \<and>
   g_qtContextHash hookedWorld mainHwnd =
     Some \<lparr>originalWindowProc = Some (ForeignWindowProc 7), contextPtr = resizableContext\<rparr> \<and>
   captionRightButtonUp desktopEnv
     \<lparr>originalWindowProc = Some (ForeignWindowProc 7), contextPtr = resizableContext\<rparr>
     WM_RBUTTONUP 0x000A0064 \<and>
   dispatch desktopEnv hookedWorld mainHwnd WM_RBUTTONUP 0 0x000A0064
     = (Returned 0, snd (showSystemMenu_sys desktopEnv hookedWorld mainHwnd (QPoint 200 60) False False)) \<and>
   nonClientCaptionRightButtonUp WM_NCRBUTTONUP HTCAPTION \<and>
   dispatch desktopEnv hookedWorld mainHwnd WM_NCRBUTTONUP HTCAPTION 0x003C00C8
     = (Returned 0, snd (showSystemMenu_sys desktopEnv hookedWorld mainHwnd (QPoint 200 60) False False)) \<and>
   keyboardSystemMenuCommand WM_SYSCOMMAND 0xF100 VK_SPACE \<and>
   dispatch desktopEnv hookedWorld mainHwnd WM_SYSCOMMAND 0xF100 VK_SPACE
     = (Returned 0, snd (showSystemMenu_sys desktopEnv hookedWorld mainHwnd (QPoint 100 80) True False)) \<and>
   altSpaceKeyDown desktopEnv WM_SYSKEYDOWN VK_SPACE \<and>
   dispatch desktopEnv hookedWorld mainHwnd WM_SYSKEYDOWN VK_SPACE 0
     = (Returned 0, snd (showSystemMenu_sys desktopEnv hookedWorld mainHwnd (QPoint 100 80) True False)) \<and>
   dispatch desktopEnv hookedWorld mainHwnd 15 0 0
     = (CallWindowProcW (ForeignWindowProc 7) mainHwnd 15 0 0, hookedWorld)"
proof -
  let ?data = "\<lparr>originalWindowProc = Some (ForeignWindowProc 7), contextPtr = resizableContext\<rparr>"
  have pos: "GET_X_LPARAM 0x000A0064 = 100" "GET_Y_LPARAM 0x000A0064 = 10"
    "GET_X_LPARAM 0x003C00C8 = 200" "GET_Y_LPARAM 0x003C00C8 = 60"
    by (simp_all add: GET_X_LPARAM_def GET_Y_LPARAM_def)
  have t1: "captionRightButtonUp desktopEnv ?data WM_RBUTTONUP 0x000A0064"
    by (simp add: captionRightButtonUp_def pos desktopEnv_def resizableContext_def
        titleBarTop30_def)
  have t2: "nonClientCaptionRightButtonUp WM_NCRBUTTONUP HTCAPTION"
    by (simp add: nonClientCaptionRightButtonUp_def)
  have t3: "keyboardSystemMenuCommand WM_SYSCOMMAND 0xF100 VK_SPACE"
    by (simp add: keyboardSystemMenuCommand_def SC_KEYMENU_def)
  have t4: "altSpaceKeyDown desktopEnv WM_SYSKEYDOWN VK_SPACE"
    by (simp add: altSpaceKeyDown_def desktopEnv_def)
  have t5: "\<not> captionRightButtonUp desktopEnv ?data 15 0"
    "\<not> nonClientCaptionRightButtonUp 15 0"
    "\<not> keyboardSystemMenuCommand 15 0 0"
    "\<not> altSpaceKeyDown desktopEnv 15 0"
    by (simp_all add: trigger_defs msg_defs)
  have env: "ClientToScreen desktopEnv mainHwnd (QPoint 100 10) = QPoint 200 60"
    "belowWindowCorner desktopEnv mainHwnd = QPoint 100 80"
    "\<not> isHostSizeFixed resizableContext"
    by (simp_all add: desktopEnv_def belowWindowCorner_def resizableContext_def)
  show ?thesis
    using dispatch_cases [of freshWorld mainHwnd desktopEnv WM_RBUTTONUP 0 "0x000A0064"]
      dispatch_cases [of hookedWorld mainHwnd desktopEnv WM_RBUTTONUP 0 "0x000A0064" ?data]
      dispatch_cases [of hookedWorld mainHwnd desktopEnv WM_NCRBUTTONUP HTCAPTION "0x003C00C8" ?data]
      dispatch_cases [of hookedWorld mainHwnd desktopEnv WM_SYSCOMMAND "0xF100" VK_SPACE ?data]
      dispatch_cases [of hookedWorld mainHwnd desktopEnv WM_SYSKEYDOWN VK_SPACE 0 ?data]
      dispatch_cases [of hookedWorld mainHwnd desktopEnv 15 0 0 ?data]
      t1 t2 t3 t4 t5 hookedWorld_simps(1) hookedWorld_simps(3) [of mainHwnd]
    by (simp add: pos env)
qed

text \<open>
  C6: \<^verbatim>\<open>installSystemMenuHook\<close> for a window that already has a record in the
  hook table changes nothing: the record, its original handler and the installed
  handler stay as the first registration left them. A second install after a
  first one, with any context, is therefore the first install alone.
\<close>

theorem install_idempotent:
  "(hwnd \<in> dom (g_qtContextHash w) \<longrightarrow> installSystemMenuHook w hwnd ctx = w) \<and>
   installSystemMenuHook (installSystemMenuHook w hwnd ctx) hwnd ctx'
     = installSystemMenuHook w hwnd ctx"
  by (auto simp add: installSystemMenuHook_def split: option.splits)

text \<open>
  The theorem for the main window, hooked with one context and then installed again
  with another: the record still holds the first context and the handler
  captured by the first install.
\<close>

theorem install_idempotent_witness:
  "mainHwnd \<in> dom (g_qtContextHash hookedWorld) \<and>
   installSystemMenuHook hookedWorld mainHwnd fixedSizeContext = hookedWorld \<and>
   g_qtContextHash (installSystemMenuHook hookedWorld mainHwnd fixedSizeContext) mainHwnd =
     Some \<lparr>originalWindowProc = Some (ForeignWindowProc 7), contextPtr = resizableContext\<rparr> \<and>
   wndProc (installSystemMenuHook hookedWorld mainHwnd fixedSizeContext) mainHwnd
     = Some SystemMenuHookWindowProc"
proof -
  have present: "mainHwnd \<in> dom (g_qtContextHash hookedWorld)"
    by (simp add: hookedWorld_simps(1) dom_def)
  show ?thesis
    using install_idempotent [of mainHwnd hookedWorld fixedSizeContext fixedSizeContext] present
    by (simp add: hookedWorld_simps)
qed

text \<open>
  C5: in a consistent state, \<^verbatim>\<open>installSystemMenuHook\<close> followed by
  \<^verbatim>\<open>uninstallSystemMenuHook\<close> for the same window leaves the window without a
  record in the hook table and with the original handler that the record held
  as its message handler, which is not the replacement handler: messages to the
  window reach the original handler and none reaches the replacement. When the
  window had no record before, the whole state is the one before the install.
\<close>

theorem install_uninstall_restores:
  assumes "hookTableConsistent w"
  shows "g_qtContextHash (uninstallSystemMenuHook (installSystemMenuHook w hwnd ctx) hwnd) hwnd
           = None \<and>
         (\<forall>data. g_qtContextHash (installSystemMenuHook w hwnd ctx) hwnd = Some data \<longrightarrow>
            messageHandler (uninstallSystemMenuHook (installSystemMenuHook w hwnd ctx) hwnd) hwnd
              = originalWindowProc data) \<and>
         messageHandler (uninstallSystemMenuHook (installSystemMenuHook w hwnd ctx) hwnd) hwnd
           \<noteq> Some SystemMenuHookWindowProc \<and>
         (g_qtContextHash w hwnd = None \<longrightarrow>
            uninstallSystemMenuHook (installSystemMenuHook w hwnd ctx) hwnd = w)"
proof -
  let ?w1 = "installSystemMenuHook w hwnd ctx"
  let ?w2 = "uninstallSystemMenuHook ?w1 hwnd"
  have c1: "hookTableConsistent ?w1"
    using assms by (rule install_consistent)
  have c2: "hookTableConsistent ?w2"
    using c1 by (rule uninstall_consistent)
  have gone: "g_qtContextHash ?w2 hwnd = None"
    by (simp add: uninstallSystemMenuHook_def Let_def split: option.splits)
  have restored: "messageHandler ?w2 hwnd = originalWindowProc data"
    if "g_qtContextHash ?w1 hwnd = Some data" for data
  proof -
    from c1 that obtain p where "originalWindowProc data = Some p"
      unfolding hookTableConsistent_def by blast
    with that show ?thesis
      by (simp add: uninstallSystemMenuHook_def messageHandler_def Let_def)
  qed
  have nohook: "messageHandler ?w2 hwnd \<noteq> Some SystemMenuHookWindowProc"
    using c2 gone unfolding hookTableConsistent_def messageHandler_def by blast
  show ?thesis
    using gone restored nohook install_uninstall_fresh [of w hwnd ctx] by blast
qed

text \<open>
  The theorem for the main window in the state where no window is hooked: while hooked
  the window runs the replacement handler, and after the uninstall it runs the
  toolkit's handler again and the state is the initial one.
\<close>

theorem install_uninstall_restores_witness:
  "hookTableConsistent freshWorld \<and>
   g_qtContextHash freshWorld mainHwnd = None \<and>
   messageHandler (installSystemMenuHook freshWorld mainHwnd resizableContext) mainHwnd
     = Some SystemMenuHookWindowProc \<and>
   g_qtContextHash
     (uninstallSystemMenuHook (installSystemMenuHook freshWorld mainHwnd resizableContext) mainHwnd) mainHwnd = None \<and>
   messageHandler
     (uninstallSystemMenuHook (installSystemMenuHook freshWorld mainHwnd resizableContext) mainHwnd) 1
     = Some (ForeignWindowProc 7) \<and>
   uninstallSystemMenuHook (installSystemMenuHook freshWorld mainHwnd resizableContext) mainHwnd = freshWorld"
proof -
  have hooked: "messageHandler (installSystemMenuHook freshWorld mainHwnd resizableContext) mainHwnd
      = Some SystemMenuHookWindowProc"
    using hookedWorld_simps(2) by (simp add: messageHandler_def hookedWorld_def)
  have entry: "g_qtContextHash (installSystemMenuHook freshWorld mainHwnd resizableContext) mainHwnd =
      Some \<lparr>originalWindowProc = Some (ForeignWindowProc 7), contextPtr = resizableContext\<rparr>"
    using hookedWorld_simps(1) by (simp add: hookedWorld_def)
  show ?thesis
    using install_uninstall_restores [OF freshWorld_consistent, of mainHwnd resizableContext]
      freshWorld_consistent hooked entry hookedWorld_simps(3) [of mainHwnd]
    by (simp add: messageHandler_def hookedWorld_simps(4))
qed

end
